theory Spec2Isabelle
  imports Complex_Main "HOL-Library.Word"
begin

unbundle bit_operations_syntax

section \<open>ScriptedAI: data model\<close>

text \<open>
  The embedding follows \<^verbatim>\<open>src/game/AI/ScriptDevAI/include/sc_creature.cpp\<close>.
  \<^verbatim>\<open>uint32\<close> and \<^verbatim>\<open>uint8\<close> are words of that width. A \<^verbatim>\<open>float\<close> is the
  rational number it denotes (every finite binary32 value is a rational, and the
  source only compares floats, so the comparisons are exact); NaN and the infinities
  are outside the model. A float literal is the binary32 value nearest to its decimal
  text, written as a fraction with a power of two below the line.
\<close>

type_synonym u8 = "8 word"
type_synonym u32 = "32 word"

text \<open>A unit is named by its guid; a null pointer is \<open>None\<close>.\<close>

type_synonym ObjectGuid = nat
type_synonym Unit = ObjectGuid

text \<open>
  A \<^verbatim>\<open>HostileReference\<close> of the threat list: the guid of the unit it refers to and
  the threat accumulated for it.
\<close>

type_synonym ThreatList = "(ObjectGuid \<times> rat) list"

text \<open>
  The part of \<^verbatim>\<open>m_creature\<close> that the functions of the file read or write. The
  engine's queries whose bodies are in other files (\<^verbatim>\<open>GetDistance2d\<close>,
  \<^verbatim>\<open>GetPower\<close>, \<^verbatim>\<open>IsInRange\<close>, \<^verbatim>\<open>IsWithinDistInMap\<close>) are fields holding
  the function the engine computes for this creature; \<open>MapUnits\<close> are the guids that
  the creature's map resolves to a unit.
\<close>

record Creature =
  Entry :: u32
  IsInEvadeMode :: bool
  getVictim :: "Unit option"
  PositionX :: rat
  PositionY :: rat
  PositionZ :: rat
  RespawnCoord :: "rat \<times> rat \<times> rat"
  GetDistance2d :: "rat \<Rightarrow> rat \<Rightarrow> rat"
  Silenced :: bool
  GetPower :: "u32 \<Rightarrow> u32"
  m_spells :: "nat \<Rightarrow> nat"
  IsInRange :: "Unit \<Rightarrow> rat \<Rightarrow> rat \<Rightarrow> bool"
  IsWithinDistInMap :: "Unit \<Rightarrow> rat \<Rightarrow> bool"
  CanHaveThreatList :: bool
  ThreatList :: ThreatList
  MapUnits :: "ObjectGuid list"

text \<open>
  What the AI does to the world outside the file, in the order it does it: a line
  sent to \<^verbatim>\<open>script_error_log\<close> (with the creature entry it prints), and a call of
  the virtual \<^verbatim>\<open>EnterEvadeMode()\<close>.
\<close>

datatype diagnostic =
    ResetThreat_no_threat_list u32
  | EvadeArea_no_definition u32

datatype call = Script_error_log diagnostic | Call_EnterEvadeMode

record ScriptedAI =
  m_uiEvadeCheckCooldown :: u32
  m_creature :: Creature
  calls :: "call list"

definition script_error_log :: "diagnostic \<Rightarrow> ScriptedAI \<Rightarrow> ScriptedAI" where
  "script_error_log d ai = ai\<lparr>calls := calls ai @ [Script_error_log d]\<rparr>"

definition EnterEvadeMode :: "ScriptedAI \<Rightarrow> ScriptedAI" where
  "EnterEvadeMode ai = ai\<lparr>calls := calls ai @ [Call_EnterEvadeMode]\<rparr>"

section \<open>EnterEvadeIfOutOfCombatArea\<close>

definition NPC_BROODLORD :: u32 where "NPC_BROODLORD = 12017"
definition NPC_VOID_REAVER :: u32 where "NPC_VOID_REAVER = 19516"
definition NPC_JAN_ALAI :: u32 where "NPC_JAN_ALAI = 23578"
definition NPC_TALON_KING_IKISS :: u32 where "NPC_TALON_KING_IKISS = 18473"
definition NPC_KARGATH_BLADEFIST :: u32 where "NPC_KARGATH_BLADEFIST = 16808"
definition NPC_NETHERMANCER_SEPETHREA :: u32 where "NPC_NETHERMANCER_SEPETHREA = 19221"
definition NPC_MOROES :: u32 where "NPC_MOROES = 15687"
definition NPC_MOROGRIM_TIDEWALKER :: u32 where "NPC_MOROGRIM_TIDEWALKER = 21213"
definition NPC_ANUBARAK :: u32 where "NPC_ANUBARAK = 29120"
definition NPC_SINDRAGOSA :: u32 where "NPC_SINDRAGOSA = 36853"
definition NPC_ZARITHRIAN :: u32 where "NPC_ZARITHRIAN = 39746"

text \<open>
  The ways control leaves the \<^verbatim>\<open>switch\<close>: a \<^verbatim>\<open>return false\<close> inside an authored
  case, a \<^verbatim>\<open>break\<close> (which reaches \<^verbatim>\<open>EnterEvadeMode()\<close>), and the
  \<^verbatim>\<open>default\<close> label.
\<close>

datatype switch_exit = Return_false | Break | Default

text \<open>
  The \<^verbatim>\<open>switch (m_creature->GetEntry())\<close>, case by case in the order of the source.
  The case of \<^verbatim>\<open>NPC_MOROGRIM_TIDEWALKER\<close> has no \<^verbatim>\<open>break\<close>: when its own test
  does not return, control runs on into the body of \<^verbatim>\<open>NPC_ANUBARAK\<close>.
  The literals that are not whole numbers: \<^verbatim>\<open>448.60f\<close> is 14699725 / 32768,
  \<^verbatim>\<open>432.59f\<close> is 14175109 / 32768, \<^verbatim>\<open>371.93f\<close> is 6093701 / 16384,
  \<^verbatim>\<open>-11027.73f\<close> is - 2823099 / 256, \<^verbatim>\<open>-10946.64f\<close> is - 11209359 / 1024,
  \<^verbatim>\<open>-1952.38f\<close> is - 15993897 / 8192, \<^verbatim>\<open>-1861.11f\<close> is - 15246213 / 8192,
  \<^verbatim>\<open>304.12f\<close> is 2491351 / 8192 and \<^verbatim>\<open>457.35f\<close> is 14986445 / 32768.
\<close>

definition combat_area_switch :: "Creature \<Rightarrow> switch_exit" where
  "combat_area_switch c =
    (let x = PositionX c; y = PositionY c; z = PositionZ c; e = Entry c in
     if e = NPC_BROODLORD then
       (if z > 14699725 / 32768 then Return_false else Break)
     else if e = NPC_VOID_REAVER then
       (if GetDistance2d c (14175109 / 32768) (6093701 / 16384) < 105 then Return_false
        else Break)
     else if e = NPC_JAN_ALAI then
       (if z > 12 then Return_false else Break)
     else if e = NPC_TALON_KING_IKISS then
       (case RespawnCoord c of (rx, ry, rz) \<Rightarrow>
          if GetDistance2d c rx ry < 70 then Return_false else Break)
     else if e = NPC_KARGATH_BLADEFIST then
       (if x < 255 \<and> x > 205 then Return_false else Break)
     else if e = NPC_NETHERMANCER_SEPETHREA then
       (if x > 266 then Return_false else Break)
     else if e = NPC_MOROES then
       (if x > - (2823099 / 256) \<and> x < - (11209359 / 1024)
           \<and> y > - (15993897 / 8192) \<and> y < - (15246213 / 8192)
        then Return_false else Break)
     else if e = NPC_MOROGRIM_TIDEWALKER then
       (if x > 2491351 / 8192 \<and> x < 14986445 / 32768 then Return_false
        else if y < 281 \<and> y > 228 then Return_false
        else Break)
     else if e = NPC_ANUBARAK then
       (if y < 281 \<and> y > 228 then Return_false else Break)
     else if e = NPC_SINDRAGOSA then
       (if x > 4314 then Return_false else Break)
     else if e = NPC_ZARITHRIAN then
       (if z > 87 then Return_false else Break)
     else Default)"

text \<open>
  The function from the \<^verbatim>\<open>switch\<close> to its end: the geometric test of the creature's
  position and what follows from it.
\<close>

definition combat_area_test :: "ScriptedAI \<Rightarrow> bool \<times> ScriptedAI" where
  "combat_area_test ai =
    (case combat_area_switch (m_creature ai) of
       Return_false \<Rightarrow> (False, ai)
     | Default \<Rightarrow>
         (False, script_error_log (EvadeArea_no_definition (Entry (m_creature ai))) ai)
     | Break \<Rightarrow> (True, EnterEvadeMode ai))"

definition EnterEvadeIfOutOfCombatArea :: "u32 \<Rightarrow> ScriptedAI \<Rightarrow> bool \<times> ScriptedAI" where
  "EnterEvadeIfOutOfCombatArea diff ai =
    (if m_uiEvadeCheckCooldown ai < diff then
       (let ai' = ai\<lparr>m_uiEvadeCheckCooldown := 2500\<rparr> in
        if IsInEvadeMode (m_creature ai') \<or> getVictim (m_creature ai') = None
        then (False, ai')
        else combat_area_test ai')
     else (False, ai\<lparr>m_uiEvadeCheckCooldown := m_uiEvadeCheckCooldown ai - diff\<rparr>))"

text \<open>
  A creature standing at the origin with nothing else set: the starting point of the
  concrete states below. Its distance queries answer as if every point were at
  distance 0.
\<close>

definition blank_creature :: Creature where
  "blank_creature =
    \<lparr>Entry = 0, IsInEvadeMode = False, getVictim = None,
     PositionX = 0, PositionY = 0, PositionZ = 0, RespawnCoord = (0, 0, 0),
     GetDistance2d = (\<lambda>x y. 0), Silenced = False, GetPower = (\<lambda>p. 0),
     m_spells = (\<lambda>i. 0), IsInRange = (\<lambda>u lo hi. lo \<le> 0 \<and> 0 \<le> hi),
     IsWithinDistInMap = (\<lambda>u d. 0 \<le> d), CanHaveThreatList = False,
     ThreatList = [], MapUnits = []\<rparr>"

definition new_ScriptedAI :: "Creature \<Rightarrow> ScriptedAI" where
  "new_ScriptedAI c = \<lparr>m_uiEvadeCheckCooldown = 2500, m_creature = c, calls = []\<rparr>"

text \<open>Kargath Bladefist in combat with unit 7, at x = 0 (outside his band).\<close>

definition kargath_in_combat :: ScriptedAI where
  "kargath_in_combat =
    new_ScriptedAI (blank_creature\<lparr>Entry := NPC_KARGATH_BLADEFIST, getVictim := Some 7\<rparr>)"

text \<open>Morogrim Tidewalker in combat with unit 7, at x = 500 and y = 250.\<close>

definition morogrim_in_combat :: ScriptedAI where
  "morogrim_in_combat =
    new_ScriptedAI (blank_creature\<lparr>Entry := NPC_MOROGRIM_TIDEWALKER, getVictim := Some 7,
      PositionX := 500, PositionY := 250\<rparr>)"

text \<open>A creature of entry 1, which has no case in the switch, in combat with unit 7.\<close>

definition unlisted_in_combat :: ScriptedAI where
  "unlisted_in_combat = new_ScriptedAI (blank_creature\<lparr>Entry := 1, getVictim := Some 7\<rparr>)"

section \<open>The spell stores and the spell summary\<close>

text \<open>
  The values of \<^verbatim>\<open>EffectImplicitTargetA[j]\<close> and \<^verbatim>\<open>Effect[j]\<close> that the file
  names. The enumerations are declared in the engine's headers; the file compares
  for equality only, so each named value is a constructor and every other value is
  \<open>TARGET_other\<close> or \<open>SPELL_EFFECT_other\<close>.
\<close>

datatype Targets_enum =
    TARGET_SELF
  | TARGET_CHAIN_DAMAGE
  | TARGET_CURRENT_ENEMY_COORDINATES
  | TARGET_ALL_ENEMY_IN_AREA
  | TARGET_ALL_ENEMY_IN_AREA_INSTANT
  | TARGET_CASTER_COORDINATES
  | TARGET_ALL_ENEMY_IN_AREA_CHANNELED
  | TARGET_SINGLE_FRIEND
  | TARGET_SINGLE_PARTY
  | TARGET_ALL_PARTY_AROUND_CASTER
  | TARGET_AREAEFFECT_PARTY
  | TARGET_other u32

datatype SpellEffects_enum =
    SPELL_EFFECT_SCHOOL_DAMAGE
  | SPELL_EFFECT_INSTAKILL
  | SPELL_EFFECT_ENVIRONMENTAL_DAMAGE
  | SPELL_EFFECT_HEALTH_LEECH
  | SPELL_EFFECT_HEAL
  | SPELL_EFFECT_HEAL_MAX_HEALTH
  | SPELL_EFFECT_HEAL_MECHANICAL
  | SPELL_EFFECT_APPLY_AURA
  | SPELL_EFFECT_other u32

text \<open>
  The fields of \<^verbatim>\<open>SpellEntry\<close> and \<^verbatim>\<open>SpellRangeEntry\<close> that the file reads. The
  three per-effect arrays are read at the indices 0, 1 and 2 only.
\<close>

record SpellEntry =
  SchoolMask :: u32
  Mechanic :: u32
  manaCost :: u32
  powerType :: u32
  rangeIndex :: u32
  EffectImplicitTargetA :: "nat \<Rightarrow> Targets_enum"
  Effect :: "nat \<Rightarrow> SpellEffects_enum"
  EffectApplyAuraName :: "nat \<Rightarrow> u32"

record SpellRangeEntry =
  minRange :: rat
  maxRange :: rat

record TSpellSummary =
  Targets :: u8
  Effects :: u8

text \<open>
  Modelled from the spec: the static ability database and the range table (their
  storage classes are not in this file). The ability database offers a lookup by id
  and a max-id query; no id at or beyond the max id resolves. It is the array of its
  rows, indexed by id, a missing row being \<open>None\<close>. The range table is a lookup by
  id. \<open>SpellSummary\<close> is the global array that \<^verbatim>\<open>FillSpellSummary\<close> allocates.
\<close>

record Globals =
  SpellStore :: "SpellEntry option list"
  SpellRangeStore :: "u32 \<Rightarrow> SpellRangeEntry option"
  SpellSummary :: "TSpellSummary list"

definition GetMaxEntry :: "Globals \<Rightarrow> nat" where
  "GetMaxEntry g = length (SpellStore g)"

definition LookupEntry :: "Globals \<Rightarrow> nat \<Rightarrow> SpellEntry option" where
  "LookupEntry g i = (if i < length (SpellStore g) then SpellStore g ! i else None)"

text \<open>
  Modelled from the spec: \<^verbatim>\<open>enum SelectTarget\<close> and \<^verbatim>\<open>enum SelectEffect\<close> (declared in
  the header of this file, which is not among the sources), numbered from 0 in the
  order in which the spec lists the target classes (self, single-enemy, aoe-enemy,
  any-enemy, single-friend, aoe-friend, any-friend) and the effect classes (damage,
  healing, applies-persistent-effect), after the value 0 that stands for no filter.
\<close>

datatype SelectTarget =
    SELECT_TARGET_DONTCARE
  | SELECT_TARGET_SELF
  | SELECT_TARGET_SINGLE_ENEMY
  | SELECT_TARGET_AOE_ENEMY
  | SELECT_TARGET_ANY_ENEMY
  | SELECT_TARGET_SINGLE_FRIEND
  | SELECT_TARGET_AOE_FRIEND
  | SELECT_TARGET_ANY_FRIEND

datatype SelectEffect =
    SELECT_EFFECT_DONTCARE
  | SELECT_EFFECT_DAMAGE
  | SELECT_EFFECT_HEALING
  | SELECT_EFFECT_AURA

fun SelectTarget_value :: "SelectTarget \<Rightarrow> nat" where
  "SelectTarget_value SELECT_TARGET_DONTCARE = 0"
| "SelectTarget_value SELECT_TARGET_SELF = 1"
| "SelectTarget_value SELECT_TARGET_SINGLE_ENEMY = 2"
| "SelectTarget_value SELECT_TARGET_AOE_ENEMY = 3"
| "SelectTarget_value SELECT_TARGET_ANY_ENEMY = 4"
| "SelectTarget_value SELECT_TARGET_SINGLE_FRIEND = 5"
| "SelectTarget_value SELECT_TARGET_AOE_FRIEND = 6"
| "SelectTarget_value SELECT_TARGET_ANY_FRIEND = 7"

fun SelectEffect_value :: "SelectEffect \<Rightarrow> nat" where
  "SelectEffect_value SELECT_EFFECT_DONTCARE = 0"
| "SelectEffect_value SELECT_EFFECT_DAMAGE = 1"
| "SelectEffect_value SELECT_EFFECT_HEALING = 2"
| "SelectEffect_value SELECT_EFFECT_AURA = 3"

text \<open>The masks \<^verbatim>\<open>1 << (selectTargets - 1)\<close> and \<^verbatim>\<open>1 << (selectEffects - 1)\<close>.\<close>

definition target_mask :: "SelectTarget \<Rightarrow> u8" where
  "target_mask t = push_bit (SelectTarget_value t - 1) 1"

definition effect_mask :: "SelectEffect \<Rightarrow> u8" where
  "effect_mask e = push_bit (SelectEffect_value e - 1) 1"

definition or_Targets :: "SelectTarget \<Rightarrow> TSpellSummary \<Rightarrow> TSpellSummary" where
  "or_Targets t s = s\<lparr>Targets := Targets s OR target_mask t\<rparr>"

definition or_Effects :: "SelectEffect \<Rightarrow> TSpellSummary \<Rightarrow> TSpellSummary" where
  "or_Effects e s = s\<lparr>Effects := Effects s OR effect_mask e\<rparr>"

section \<open>FillSpellSummary\<close>

text \<open>
  The body of the inner loop for the effect slot \<open>j\<close>: ten conditional
  \<^verbatim>\<open>|=\<close> statements, in the order of the source.
\<close>

definition summarize_slot :: "SpellEntry \<Rightarrow> nat \<Rightarrow> TSpellSummary \<Rightarrow> TSpellSummary" where
  "summarize_slot tempSpell j s0 =
    (let t = EffectImplicitTargetA tempSpell j;
         e = Effect tempSpell j;
         s1 = (if t = TARGET_SELF then or_Targets SELECT_TARGET_SELF s0 else s0);
         s2 = (if t = TARGET_CHAIN_DAMAGE \<or> t = TARGET_CURRENT_ENEMY_COORDINATES
               then or_Targets SELECT_TARGET_SINGLE_ENEMY s1 else s1);
         s3 = (if t = TARGET_ALL_ENEMY_IN_AREA \<or> t = TARGET_ALL_ENEMY_IN_AREA_INSTANT
                  \<or> t = TARGET_CASTER_COORDINATES \<or> t = TARGET_ALL_ENEMY_IN_AREA_CHANNELED
               then or_Targets SELECT_TARGET_AOE_ENEMY s2 else s2);
         s4 = (if t = TARGET_CHAIN_DAMAGE \<or> t = TARGET_CURRENT_ENEMY_COORDINATES
                  \<or> t = TARGET_ALL_ENEMY_IN_AREA \<or> t = TARGET_ALL_ENEMY_IN_AREA_INSTANT
                  \<or> t = TARGET_CASTER_COORDINATES \<or> t = TARGET_ALL_ENEMY_IN_AREA_CHANNELED
               then or_Targets SELECT_TARGET_ANY_ENEMY s3 else s3);
         s5 = (if t = TARGET_SELF \<or> t = TARGET_SINGLE_FRIEND \<or> t = TARGET_SINGLE_PARTY
               then or_Targets SELECT_TARGET_SINGLE_FRIEND s4 else s4);
         s6 = (if t = TARGET_ALL_PARTY_AROUND_CASTER \<or> t = TARGET_AREAEFFECT_PARTY
                  \<or> t = TARGET_CASTER_COORDINATES
               then or_Targets SELECT_TARGET_AOE_FRIEND s5 else s5);
         s7 = (if t = TARGET_SELF \<or> t = TARGET_SINGLE_FRIEND \<or> t = TARGET_SINGLE_PARTY
                  \<or> t = TARGET_ALL_PARTY_AROUND_CASTER \<or> t = TARGET_AREAEFFECT_PARTY
                  \<or> t = TARGET_CASTER_COORDINATES
               then or_Targets SELECT_TARGET_ANY_FRIEND s6 else s6);
         s8 = (if e = SPELL_EFFECT_SCHOOL_DAMAGE \<or> e = SPELL_EFFECT_INSTAKILL
                  \<or> e = SPELL_EFFECT_ENVIRONMENTAL_DAMAGE \<or> e = SPELL_EFFECT_HEALTH_LEECH
               then or_Effects SELECT_EFFECT_DAMAGE s7 else s7);
         s9 = (if e = SPELL_EFFECT_HEAL \<or> e = SPELL_EFFECT_HEAL_MAX_HEALTH
                  \<or> e = SPELL_EFFECT_HEAL_MECHANICAL
                  \<or> (e = SPELL_EFFECT_APPLY_AURA \<and> EffectApplyAuraName tempSpell j = 8)
               then or_Effects SELECT_EFFECT_HEALING s8 else s8)
     in if e = SPELL_EFFECT_APPLY_AURA then or_Effects SELECT_EFFECT_AURA s9 else s9)"

text \<open>
  The body of the outer loop for the id \<open>i\<close>: the entry is zeroed, and filled from
  the three effect slots when the id resolves.
\<close>

definition summarize_spell :: "Globals \<Rightarrow> nat \<Rightarrow> TSpellSummary" where
  "summarize_spell g i =
    (case LookupEntry g i of
       None \<Rightarrow> \<lparr>Targets = 0, Effects = 0\<rparr>
     | Some tempSpell \<Rightarrow> fold (summarize_slot tempSpell) [0, 1, 2] \<lparr>Targets = 0, Effects = 0\<rparr>)"

definition FillSpellSummary :: "Globals \<Rightarrow> Globals" where
  "FillSpellSummary g = g\<lparr>SpellSummary := map (summarize_spell g) [0..<GetMaxEntry g]\<rparr>"

text \<open>
  Reading \<^verbatim>\<open>SpellSummary[i]\<close>. The array has as many elements as it was allocated
  with; a read at or beyond its length is undefined in the source and is \<open>None\<close>
  here.
\<close>

definition SpellSummary_at :: "Globals \<Rightarrow> nat \<Rightarrow> TSpellSummary option" where
  "SpellSummary_at g i = (if i < length (SpellSummary g) then Some (SpellSummary g ! i) else None)"

section \<open>SelectSpell and CanCast\<close>

text \<open>The one way \<^verbatim>\<open>SelectSpell\<close> can leave defined behaviour.\<close>

datatype fault = SpellSummary_out_of_bounds

text \<open>The arguments of \<^verbatim>\<open>SelectSpell\<close> after the target, under their names.\<close>

record SelectSpell_args =
  school :: "32 word"
  mechanic :: "32 word"
  selectTargets :: SelectTarget
  powerCostMin :: u32
  powerCostMax :: u32
  rangeMin :: rat
  rangeMax :: rat
  selectEffects :: SelectEffect

text \<open>
  The body of the scan for the slot \<open>i\<close> of \<^verbatim>\<open>m_spells\<close>: \<open>Inr None\<close> is a
  \<^verbatim>\<open>continue\<close>, \<open>Inr (Some s)\<close> the spell added to \<^verbatim>\<open>spellInfos\<close>. The
  \<^verbatim>\<open>int32\<close> arguments \<open>school\<close> and \<open>mechanic\<close> are their 32 bits, read signed by
  \<open>sint\<close> for \<^verbatim>\<open>>= 0\<close> and reinterpreted unsigned for \<^verbatim>\<open>&\<close> and \<^verbatim>\<open>!=\<close>, as the
  conversions of the source do. \<^verbatim>\<open>SpellSummary\<close> is read only when the filter is not
  zero, as \<^verbatim>\<open>&&\<close> evaluates.
\<close>

definition spell_slot ::
  "Globals \<Rightarrow> Creature \<Rightarrow> Unit \<Rightarrow> SelectSpell_args \<Rightarrow> nat \<Rightarrow> fault + SpellEntry option" where
  "spell_slot g c target a i =
    (case LookupEntry g (m_spells c i) of
       None \<Rightarrow> Inr None
     | Some tempSpellInfo \<Rightarrow>
        if SelectTarget_value (selectTargets a) \<noteq> 0 \<and> SpellSummary_at g (m_spells c i) = None
          then Inl SpellSummary_out_of_bounds
        else if SelectTarget_value (selectTargets a) \<noteq> 0
            \<and> Targets (SpellSummary g ! m_spells c i) AND target_mask (selectTargets a) = 0
          then Inr None
        else if SelectEffect_value (selectEffects a) \<noteq> 0 \<and> SpellSummary_at g (m_spells c i) = None
          then Inl SpellSummary_out_of_bounds
        else if SelectEffect_value (selectEffects a) \<noteq> 0
            \<and> Effects (SpellSummary g ! m_spells c i) AND effect_mask (selectEffects a) = 0
          then Inr None
        else if 0 \<le> sint (school a) \<and> SchoolMask tempSpellInfo AND school a \<noteq> 0
          then Inr None
        else if 0 \<le> sint (mechanic a) \<and> Mechanic tempSpellInfo \<noteq> mechanic a
          then Inr None
        else if powerCostMin a \<noteq> 0 \<and> manaCost tempSpellInfo < powerCostMin a
          then Inr None
        else if powerCostMax a \<noteq> 0 \<and> manaCost tempSpellInfo > powerCostMax a
          then Inr None
        else if manaCost tempSpellInfo > GetPower c (powerType tempSpellInfo)
          then Inr None
        else
          (case SpellRangeStore g (rangeIndex tempSpellInfo) of
             None \<Rightarrow> Inr None
           | Some tempRange \<Rightarrow>
               if rangeMin a \<noteq> 0 \<and> maxRange tempRange < rangeMin a then Inr None
               else if rangeMax a \<noteq> 0 \<and> maxRange tempRange > rangeMax a then Inr None
               else if IsWithinDistInMap c target (minRange tempRange)
                    \<or> \<not> IsWithinDistInMap c target (maxRange tempRange)
                 then Inr None
               else Inr (Some tempSpellInfo)))"

text \<open>
  The \<^verbatim>\<open>for\<close> loop over the slots still to visit, with the spells collected so far
  (\<^verbatim>\<open>spellInfos[0 .. spellCount - 1]\<close>).
\<close>

fun scan_spells ::
  "(nat \<Rightarrow> fault + SpellEntry option) \<Rightarrow> nat list \<Rightarrow> SpellEntry list \<Rightarrow> fault + SpellEntry list"
where
  "scan_spells body [] spellInfos = Inr spellInfos"
| "scan_spells body (i # rest) spellInfos =
    (case body i of
       Inl f \<Rightarrow> Inl f
     | Inr None \<Rightarrow> scan_spells body rest spellInfos
     | Inr (Some s) \<Rightarrow> scan_spells body rest (spellInfos @ [s]))"

text \<open>
  Modelled from the spec: \<^verbatim>\<open>urand(min, max)\<close>, the engine's random source (not in this
  file), which chooses a number of the range \<open>min .. max\<close>; \<open>rnd\<close> is the raw value
  drawn from the injected source, and every number of the range is the choice for
  some \<open>rnd\<close>.
\<close>

definition urand :: "nat \<Rightarrow> nat \<Rightarrow> nat \<Rightarrow> nat" where
  "urand rnd lo hi = lo + rnd mod (hi - lo + 1)"

definition viable_spells :: "Globals \<Rightarrow> Creature \<Rightarrow> Unit \<Rightarrow> SelectSpell_args \<Rightarrow> fault + SpellEntry list" where
  "viable_spells g c target a = scan_spells (spell_slot g c target a) [0, 1, 2, 3] []"

definition SelectSpell ::
  "Globals \<Rightarrow> nat \<Rightarrow> ScriptedAI \<Rightarrow> Unit option \<Rightarrow> 32 word \<Rightarrow> 32 word \<Rightarrow> SelectTarget \<Rightarrow> u32 \<Rightarrow> u32
     \<Rightarrow> rat \<Rightarrow> rat \<Rightarrow> SelectEffect \<Rightarrow> fault + SpellEntry option" where
  "SelectSpell g rnd ai target school' mechanic' selectTargets' powerCostMin' powerCostMax'
      rangeMin' rangeMax' selectEffects' =
    (case target of
       None \<Rightarrow> Inr None
     | Some t \<Rightarrow>
        if Silenced (m_creature ai) then Inr None
        else
          (case viable_spells g (m_creature ai) t
                  \<lparr>school = school', mechanic = mechanic', selectTargets = selectTargets',
                   powerCostMin = powerCostMin', powerCostMax = powerCostMax',
                   rangeMin = rangeMin', rangeMax = rangeMax', selectEffects = selectEffects'\<rparr> of
             Inl f \<Rightarrow> Inl f
           | Inr spellInfos \<Rightarrow>
               if length spellInfos = 0 then Inr None
               else Inr (Some (spellInfos ! urand rnd 0 (length spellInfos - 1)))))"

definition CanCast :: "Globals \<Rightarrow> ScriptedAI \<Rightarrow> Unit option \<Rightarrow> SpellEntry option \<Rightarrow> bool \<Rightarrow> bool" where
  "CanCast g ai target spellInfo triggered =
    (case (target, spellInfo) of
       (Some t, Some s) \<Rightarrow>
         if \<not> triggered \<and> Silenced (m_creature ai) then False
         else if \<not> triggered \<and> GetPower (m_creature ai) (powerType s) < manaCost s then False
         else
           (case SpellRangeStore g (rangeIndex s) of
              None \<Rightarrow> False
            | Some tempRange \<Rightarrow>
                if \<not> IsInRange (m_creature ai) t (minRange tempRange) (maxRange tempRange)
                then False else True)
     | _ \<Rightarrow> False)"

section \<open>DoResetThreat\<close>

text \<open>
  Modelled from the spec: the threat manager and the map (not in this file). The map
  resolves a guid to the unit of that guid when it holds one. \<^verbatim>\<open>getThreat\<close> is the
  threat of the reference to the unit, 0 without one. \<^verbatim>\<open>modifyThreatPercent\<close>
  changes the threat of the reference to the unit by the percentage (by -100: reduced
  by 100 percent, that is zeroed) and leaves the reference in the list.
\<close>

definition GetUnit :: "Creature \<Rightarrow> ObjectGuid \<Rightarrow> Unit option" where
  "GetUnit c guid = (if guid \<in> set (MapUnits c) then Some guid else None)"

definition isThreatListEmpty :: "Creature \<Rightarrow> bool" where
  "isThreatListEmpty c = (ThreatList c = [])"

fun getThreat :: "ThreatList \<Rightarrow> Unit \<Rightarrow> rat" where
  "getThreat [] u = 0"
| "getThreat ((guid, threat) # rest) u = (if guid = u then threat else getThreat rest u)"

fun modifyThreatPercent :: "Unit \<Rightarrow> int \<Rightarrow> ThreatList \<Rightarrow> ThreatList" where
  "modifyThreatPercent u pct [] = []"
| "modifyThreatPercent u pct ((guid, threat) # rest) =
    (if guid = u then (guid, threat + threat * of_int pct / 100) # rest
     else (guid, threat) # modifyThreatPercent u pct rest)"

text \<open>
  The body of the loop for the reference with guid \<open>guid\<close>. The references are nodes
  of a list that the loop neither adds to nor removes from, so the loop visits the
  guids that the list held when it started, in order.
\<close>

definition reset_threat_of :: "ObjectGuid \<Rightarrow> Creature \<Rightarrow> Creature" where
  "reset_threat_of guid c =
    (case GetUnit c guid of
       None \<Rightarrow> c
     | Some unit \<Rightarrow>
         if getThreat (ThreatList c) unit \<noteq> 0
         then c\<lparr>ThreatList := modifyThreatPercent unit (- 100) (ThreatList c)\<rparr>
         else c)"

definition DoResetThreat :: "ScriptedAI \<Rightarrow> ScriptedAI" where
  "DoResetThreat ai =
    (if \<not> CanHaveThreatList (m_creature ai) \<or> isThreatListEmpty (m_creature ai)
     then script_error_log (ResetThreat_no_threat_list (Entry (m_creature ai))) ai
     else ai\<lparr>m_creature :=
            fold reset_threat_of (map fst (ThreatList (m_creature ai))) (m_creature ai)\<rparr>)"

section \<open>Concrete stores and creatures\<close>

text \<open>
  A database of two abilities, a damaging one costing 50 and a periodic heal costing
  30, both with the range 0 to 30; a caster with 40 of every power who knows both,
  10 away from every unit; the same caster with a power of 100; and a creature with
  three references in its threat list, of which the units 3 and 4 are on its map.
\<close>

definition fireball :: SpellEntry where
  "fireball =
    \<lparr>SchoolMask = 4, Mechanic = 0, manaCost = 50, powerType = 0, rangeIndex = 1,
     EffectImplicitTargetA = (\<lambda>j. if j = 0 then TARGET_CHAIN_DAMAGE else TARGET_other 0),
     Effect = (\<lambda>j. if j = 0 then SPELL_EFFECT_SCHOOL_DAMAGE else SPELL_EFFECT_other 0),
     EffectApplyAuraName = (\<lambda>j. 0)\<rparr>"

definition renew :: SpellEntry where
  "renew =
    \<lparr>SchoolMask = 2, Mechanic = 0, manaCost = 30, powerType = 0, rangeIndex = 1,
     EffectImplicitTargetA = (\<lambda>j. if j = 0 then TARGET_SINGLE_FRIEND else TARGET_other 0),
     Effect = (\<lambda>j. if j = 0 then SPELL_EFFECT_APPLY_AURA else SPELL_EFFECT_other 0),
     EffectApplyAuraName = (\<lambda>j. if j = 0 then 8 else 0)\<rparr>"

definition example_globals :: Globals where
  "example_globals =
    \<lparr>SpellStore = [None, Some fireball, Some renew],
     SpellRangeStore = (\<lambda>i. if i = 1 then Some \<lparr>minRange = 0, maxRange = 30\<rparr> else None),
     SpellSummary = []\<rparr>"

definition caster :: ScriptedAI where
  "caster =
    new_ScriptedAI (blank_creature\<lparr>GetPower := (\<lambda>p. 40),
      m_spells := (\<lambda>i. if i = 0 then 1 else if i = 1 then 2 else 0),
      IsInRange := (\<lambda>u lo hi. lo \<le> 10 \<and> 10 \<le> hi),
      IsWithinDistInMap := (\<lambda>u d. 10 \<le> d)\<rparr>)"

definition rich_caster :: ScriptedAI where
  "rich_caster = caster\<lparr>m_creature := (m_creature caster)\<lparr>GetPower := (\<lambda>p. 100)\<rparr>\<rparr>"

definition threatened :: ScriptedAI where
  "threatened =
    new_ScriptedAI (blank_creature\<lparr>CanHaveThreatList := True,
      ThreatList := [(3, 120), (4, 0), (5, 75 / 2)], MapUnits := [3, 4]\<rparr>)"

section \<open>Properties of EnterEvadeIfOutOfCombatArea\<close>

lemmas NPC_defs =
  NPC_BROODLORD_def NPC_VOID_REAVER_def NPC_JAN_ALAI_def NPC_TALON_KING_IKISS_def
  NPC_KARGATH_BLADEFIST_def NPC_NETHERMANCER_SEPETHREA_def NPC_MOROES_def
  NPC_MOROGRIM_TIDEWALKER_def NPC_ANUBARAK_def NPC_SINDRAGOSA_def NPC_ZARITHRIAN_def

lemma combat_area_switch_unlisted:
  assumes "Entry c \<notin> {NPC_BROODLORD, NPC_VOID_REAVER, NPC_JAN_ALAI, NPC_TALON_KING_IKISS,
    NPC_KARGATH_BLADEFIST, NPC_NETHERMANCER_SEPETHREA, NPC_MOROES, NPC_MOROGRIM_TIDEWALKER,
    NPC_ANUBARAK, NPC_SINDRAGOSA, NPC_ZARITHRIAN}"
  shows "combat_area_switch c = Default"
  using assms by (simp add: combat_area_switch_def)

lemma combat_area_test_cooldown:
  "m_uiEvadeCheckCooldown (snd (combat_area_test ai)) = m_uiEvadeCheckCooldown ai"
  by (simp add: combat_area_test_def script_error_log_def EnterEvadeMode_def
      split: switch_exit.split)

text \<open>
  Claim C2 as it is written fails where the elapsed delta equals the remaining
  cooldown: the source tests \<^verbatim>\<open>m_uiEvadeCheckCooldown < diff\<close>, so at equality the
  cooldown is decremented to 0, the check is skipped and the geometric test (which
  would have sent this Kargath, at x = 0, into evade mode) does not run.
\<close>

theorem cooldown_equal_to_delta_counterexample:
  "m_uiEvadeCheckCooldown kargath_in_combat \<le> 2500
   \<and> EnterEvadeIfOutOfCombatArea 2500 kargath_in_combat
       = (False, kargath_in_combat\<lparr>m_uiEvadeCheckCooldown := 0\<rparr>)
   \<and> combat_area_test (kargath_in_combat\<lparr>m_uiEvadeCheckCooldown := 2500\<rparr>)
       = (True, EnterEvadeMode (kargath_in_combat\<lparr>m_uiEvadeCheckCooldown := 2500\<rparr>))"
  by (simp add: EnterEvadeIfOutOfCombatArea_def kargath_in_combat_def new_ScriptedAI_def
      blank_creature_def combat_area_test_def combat_area_switch_def NPC_defs)

text \<open>
  Claim C2, amended: if the delta is at most the remaining cooldown, the check is
  skipped (the result is false and nothing but the cooldown changes) and the cooldown
  decreases by exactly the delta, without wrapping; if the delta is greater than the
  remaining cooldown, the cooldown is reset to 2500 and, when the creature is not
  evading and has a victim, the call is exactly one run of the geometric test on the
  state with the cooldown reset.
\<close>

theorem EnterEvadeIfOutOfCombatArea_cooldown:
  "(diff \<le> m_uiEvadeCheckCooldown ai \<longrightarrow>
      EnterEvadeIfOutOfCombatArea diff ai
        = (False, ai\<lparr>m_uiEvadeCheckCooldown := m_uiEvadeCheckCooldown ai - diff\<rparr>)
      \<and> unat (m_uiEvadeCheckCooldown ai - diff) = unat (m_uiEvadeCheckCooldown ai) - unat diff)
   \<and> (m_uiEvadeCheckCooldown ai < diff \<longrightarrow>
      m_uiEvadeCheckCooldown (snd (EnterEvadeIfOutOfCombatArea diff ai)) = 2500
      \<and> (\<not> IsInEvadeMode (m_creature ai) \<and> getVictim (m_creature ai) \<noteq> None \<longrightarrow>
           EnterEvadeIfOutOfCombatArea diff ai
             = combat_area_test (ai\<lparr>m_uiEvadeCheckCooldown := 2500\<rparr>)))"
proof (intro conjI impI)
  assume le: "diff \<le> m_uiEvadeCheckCooldown ai"
  then show "EnterEvadeIfOutOfCombatArea diff ai
        = (False, ai\<lparr>m_uiEvadeCheckCooldown := m_uiEvadeCheckCooldown ai - diff\<rparr>)"
    by (simp add: EnterEvadeIfOutOfCombatArea_def leD)
  from le show "unat (m_uiEvadeCheckCooldown ai - diff) = unat (m_uiEvadeCheckCooldown ai) - unat diff"
    by (simp add: unat_sub)
next
  assume lt: "m_uiEvadeCheckCooldown ai < diff"
  then show "m_uiEvadeCheckCooldown (snd (EnterEvadeIfOutOfCombatArea diff ai)) = 2500"
    by (simp add: EnterEvadeIfOutOfCombatArea_def Let_def combat_area_test_cooldown)
  assume "\<not> IsInEvadeMode (m_creature ai) \<and> getVictim (m_creature ai) \<noteq> None"
  with lt show "EnterEvadeIfOutOfCombatArea diff ai
             = combat_area_test (ai\<lparr>m_uiEvadeCheckCooldown := 2500\<rparr>)"
    by (auto simp add: EnterEvadeIfOutOfCombatArea_def Let_def)
qed

text \<open>The theorem on Kargath with a cooldown of 2500, at the deltas 100 and 2501.\<close>

theorem EnterEvadeIfOutOfCombatArea_cooldown_witness:
  "EnterEvadeIfOutOfCombatArea 100 kargath_in_combat
     = (False, kargath_in_combat\<lparr>m_uiEvadeCheckCooldown := 2400\<rparr>)
   \<and> EnterEvadeIfOutOfCombatArea 2501 kargath_in_combat
     = (True, kargath_in_combat\<lparr>m_uiEvadeCheckCooldown := 2500, calls := [Call_EnterEvadeMode]\<rparr>)"
proof -
  have le: "(100::u32) \<le> m_uiEvadeCheckCooldown kargath_in_combat"
    by (simp add: kargath_in_combat_def new_ScriptedAI_def)
  have lt: "m_uiEvadeCheckCooldown kargath_in_combat < 2501"
    by (simp add: kargath_in_combat_def new_ScriptedAI_def)
  have cmb: "\<not> IsInEvadeMode (m_creature kargath_in_combat)
      \<and> getVictim (m_creature kargath_in_combat) \<noteq> None"
    by (simp add: kargath_in_combat_def new_ScriptedAI_def blank_creature_def)
  have "EnterEvadeIfOutOfCombatArea 100 kargath_in_combat
     = (False, kargath_in_combat\<lparr>m_uiEvadeCheckCooldown
          := m_uiEvadeCheckCooldown kargath_in_combat - 100\<rparr>)"
    using EnterEvadeIfOutOfCombatArea_cooldown [of 100 kargath_in_combat] le by simp
  moreover have "EnterEvadeIfOutOfCombatArea 2501 kargath_in_combat
     = combat_area_test (kargath_in_combat\<lparr>m_uiEvadeCheckCooldown := 2500\<rparr>)"
    using EnterEvadeIfOutOfCombatArea_cooldown [of 2501 kargath_in_combat] lt cmb by simp
  ultimately show ?thesis
    by (simp add: kargath_in_combat_def new_ScriptedAI_def blank_creature_def
        combat_area_test_def combat_area_switch_def NPC_defs EnterEvadeMode_def)
qed

text \<open>
  Claim C3 does not hold of the source: the case of Morogrim Tidewalker lacks its
  \<^verbatim>\<open>break\<close>. Morogrim in combat with the cooldown elapsed, at x = 500 (outside the
  band from 304.12 to 457.35) and y = 250: the test of the next case returns false,
  and \<^verbatim>\<open>EnterEvadeMode()\<close> is not called.
\<close>

theorem morogrim_falls_through_to_anubarak:
  "EnterEvadeIfOutOfCombatArea 3000 morogrim_in_combat
     = (False, morogrim_in_combat\<lparr>m_uiEvadeCheckCooldown := 2500\<rparr>)"
  by (simp add: EnterEvadeIfOutOfCombatArea_def morogrim_in_combat_def new_ScriptedAI_def
      blank_creature_def combat_area_test_def combat_area_switch_def NPC_defs)

text \<open>
  Claim C8: for a creature whose entry has no case in the switch, when the cooldown
  has elapsed, the creature is not evading and has a victim, the check returns false,
  sends one line to the error log and calls nothing else (the list of calls grows by
  that line only), the cooldown being reset to 2500.
\<close>

theorem EnterEvadeIfOutOfCombatArea_unlisted_entry:
  assumes "Entry (m_creature ai) \<notin> {NPC_BROODLORD, NPC_VOID_REAVER, NPC_JAN_ALAI,
      NPC_TALON_KING_IKISS, NPC_KARGATH_BLADEFIST, NPC_NETHERMANCER_SEPETHREA, NPC_MOROES,
      NPC_MOROGRIM_TIDEWALKER, NPC_ANUBARAK, NPC_SINDRAGOSA, NPC_ZARITHRIAN}"
    and "m_uiEvadeCheckCooldown ai < diff"
    and "\<not> IsInEvadeMode (m_creature ai)"
    and "getVictim (m_creature ai) \<noteq> None"
  shows "EnterEvadeIfOutOfCombatArea diff ai
     = (False, ai\<lparr>m_uiEvadeCheckCooldown := 2500,
          calls := calls ai @ [Script_error_log (EvadeArea_no_definition (Entry (m_creature ai)))]\<rparr>)"
proof -
  have "combat_area_switch (m_creature (ai\<lparr>m_uiEvadeCheckCooldown := 2500\<rparr>)) = Default"
    using assms(1) by (simp add: combat_area_switch_unlisted)
  with assms(2-4) show ?thesis
    by (auto simp add: EnterEvadeIfOutOfCombatArea_def Let_def combat_area_test_def
        script_error_log_def)
qed

text \<open>The theorem on a creature of entry 1 with a victim, at the delta 3000.\<close>

theorem EnterEvadeIfOutOfCombatArea_unlisted_entry_witness:
  "EnterEvadeIfOutOfCombatArea 3000 unlisted_in_combat
     = (False, unlisted_in_combat\<lparr>m_uiEvadeCheckCooldown := 2500,
          calls := [Script_error_log (EvadeArea_no_definition 1)]\<rparr>)"
proof -
  have e: "Entry (m_creature unlisted_in_combat) = 1"
    and c: "calls unlisted_in_combat = []"
    and h2: "m_uiEvadeCheckCooldown unlisted_in_combat < 3000"
    and h3: "\<not> IsInEvadeMode (m_creature unlisted_in_combat)"
    and h4: "getVictim (m_creature unlisted_in_combat) \<noteq> None"
    by (simp_all add: unlisted_in_combat_def new_ScriptedAI_def blank_creature_def)
  have h1: "Entry (m_creature unlisted_in_combat) \<notin> {NPC_BROODLORD, NPC_VOID_REAVER,
      NPC_JAN_ALAI, NPC_TALON_KING_IKISS, NPC_KARGATH_BLADEFIST, NPC_NETHERMANCER_SEPETHREA,
      NPC_MOROES, NPC_MOROGRIM_TIDEWALKER, NPC_ANUBARAK, NPC_SINDRAGOSA, NPC_ZARITHRIAN}"
    by (simp add: e NPC_defs)
  from EnterEvadeIfOutOfCombatArea_unlisted_entry [OF h1 h2 h3 h4] show ?thesis by (simp add: e c)
qed

text \<open>
  Claim C10: when the delta exceeds the remaining cooldown and the creature is
  already evading or has no victim, the check returns false and the state is the
  old one with the cooldown reset to 2500: the geometric test has not run (the
  result does not depend on the position or the entry) and nothing else changed.
\<close>

theorem EnterEvadeIfOutOfCombatArea_reset_before_short_circuit:
  assumes "m_uiEvadeCheckCooldown ai < diff"
    and "IsInEvadeMode (m_creature ai) \<or> getVictim (m_creature ai) = None"
  shows "EnterEvadeIfOutOfCombatArea diff ai = (False, ai\<lparr>m_uiEvadeCheckCooldown := 2500\<rparr>)"
  using assms by (auto simp add: EnterEvadeIfOutOfCombatArea_def Let_def)

text \<open>The theorem on a fresh Kargath without a victim, at the delta 2501.\<close>

theorem EnterEvadeIfOutOfCombatArea_reset_before_short_circuit_witness:
  "EnterEvadeIfOutOfCombatArea 2501 (new_ScriptedAI (blank_creature\<lparr>Entry := NPC_KARGATH_BLADEFIST\<rparr>))
     = (False, new_ScriptedAI (blank_creature\<lparr>Entry := NPC_KARGATH_BLADEFIST\<rparr>))"
proof -
  let ?ai = "new_ScriptedAI (blank_creature\<lparr>Entry := NPC_KARGATH_BLADEFIST\<rparr>)"
  have h1: "m_uiEvadeCheckCooldown ?ai < 2501"
    by (simp add: new_ScriptedAI_def)
  have h2: "IsInEvadeMode (m_creature ?ai) \<or> getVictim (m_creature ?ai) = None"
    by (simp add: new_ScriptedAI_def blank_creature_def)
  from EnterEvadeIfOutOfCombatArea_reset_before_short_circuit [OF h1 h2]
  show ?thesis by (simp add: new_ScriptedAI_def)
qed

section \<open>Properties of CanCast\<close>

text \<open>
  Claim C1: \<open>CanCast\<close> is false exactly when the target is absent, or the ability is
  absent, or the cast is not triggered and the caster is silenced, or the cast is not
  triggered and the caster's power of the ability's power type is below its cost, or
  the ability's range entry is missing, or \<^verbatim>\<open>IsInRange\<close> denies that the target
  is between the entry's \<open>minRange\<close> and \<open>maxRange\<close>. In particular an ability
  costing 50 with a power of 40 can be cast triggered and cannot be cast untriggered,
  when the range entry exists and the target is in range. \<open>CanCast\<close> returns a
  truth value and no state: it has no effect.
\<close>

theorem CanCast_false_iff:
  "((\<not> CanCast g ai target spellInfo triggered) =
     (target = None \<or> spellInfo = None \<or>
      (\<exists>s. spellInfo = Some s \<and>
         ((\<not> triggered \<and> Silenced (m_creature ai))
          \<or> (\<not> triggered \<and> GetPower (m_creature ai) (powerType s) < manaCost s)
          \<or> SpellRangeStore g (rangeIndex s) = None
          \<or> (\<exists>t r. target = Some t \<and> SpellRangeStore g (rangeIndex s) = Some r
                \<and> \<not> IsInRange (m_creature ai) t (minRange r) (maxRange r))))))
   \<and> (manaCost a = 50 \<and> GetPower (m_creature ai) (powerType a) = 40
        \<and> SpellRangeStore g (rangeIndex a) = Some r'
        \<and> IsInRange (m_creature ai) t' (minRange r') (maxRange r')
      \<longrightarrow> CanCast g ai (Some t') (Some a) True \<and> \<not> CanCast g ai (Some t') (Some a) False)"
proof (intro conjI impI)
  show "(\<not> CanCast g ai target spellInfo triggered) =
     (target = None \<or> spellInfo = None \<or>
      (\<exists>s. spellInfo = Some s \<and>
         ((\<not> triggered \<and> Silenced (m_creature ai))
          \<or> (\<not> triggered \<and> GetPower (m_creature ai) (powerType s) < manaCost s)
          \<or> SpellRangeStore g (rangeIndex s) = None
          \<or> (\<exists>t r. target = Some t \<and> SpellRangeStore g (rangeIndex s) = Some r
                \<and> \<not> IsInRange (m_creature ai) t (minRange r) (maxRange r)))))"
    by (cases target; cases spellInfo) (auto simp add: CanCast_def split: option.splits)
next
  assume "manaCost a = 50 \<and> GetPower (m_creature ai) (powerType a) = 40
        \<and> SpellRangeStore g (rangeIndex a) = Some r'
        \<and> IsInRange (m_creature ai) t' (minRange r') (maxRange r')"
  then show "CanCast g ai (Some t') (Some a) True" "\<not> CanCast g ai (Some t') (Some a) False"
    by (simp_all add: CanCast_def)
qed

text \<open>
  The theorem on the caster with a power of 40 and the ability costing 50, cast at
  unit 7 and at no target.
\<close>

theorem CanCast_false_iff_witness:
  "CanCast example_globals caster (Some 7) (Some fireball) True
   \<and> \<not> CanCast example_globals caster (Some 7) (Some fireball) False
   \<and> \<not> CanCast example_globals caster None (Some fireball) True"
proof -
  have h: "manaCost fireball = 50 \<and> GetPower (m_creature caster) (powerType fireball) = 40
        \<and> SpellRangeStore example_globals (rangeIndex fireball) = Some \<lparr>minRange = 0, maxRange = 30\<rparr>
        \<and> IsInRange (m_creature caster) 7 (minRange \<lparr>minRange = 0, maxRange = 30\<rparr>)
             (maxRange \<lparr>minRange = 0, maxRange = 30\<rparr>)"
    by (simp add: fireball_def caster_def new_ScriptedAI_def blank_creature_def example_globals_def)
  from CanCast_false_iff [of example_globals caster None "Some fireball" True fireball
      "\<lparr>minRange = 0, maxRange = 30\<rparr>" 7] h
  show ?thesis by simp
qed

section \<open>Properties of FillSpellSummary\<close>

lemma length_FillSpellSummary:
  "length (SpellSummary (FillSpellSummary g)) = GetMaxEntry g"
  by (simp add: FillSpellSummary_def)

lemma nth_FillSpellSummary:
  "i < GetMaxEntry g \<Longrightarrow> SpellSummary (FillSpellSummary g) ! i = summarize_spell g i"
  by (simp add: FillSpellSummary_def)

lemma SpellSummary_at_FillSpellSummary:
  "SpellSummary_at (FillSpellSummary g) i
     = (if i < GetMaxEntry g then Some (summarize_spell g i) else None)"
  by (simp add: SpellSummary_at_def length_FillSpellSummary nth_FillSpellSummary)

lemma LookupEntry_FillSpellSummary [simp]:
  "LookupEntry (FillSpellSummary g) i = LookupEntry g i"
  by (simp add: LookupEntry_def FillSpellSummary_def)

lemma FillSpellSummary_idem: "FillSpellSummary (FillSpellSummary g) = FillSpellSummary g"
  by (simp add: FillSpellSummary_def GetMaxEntry_def summarize_spell_def LookupEntry_def)

text \<open>
  Claim C6 as it is written fails for an id at or beyond the max id: the array that
  \<^verbatim>\<open>FillSpellSummary\<close> allocates has exactly \<open>GetMaxEntry\<close> elements, so the
  index holds nothing for such an id (reading there is out of bounds), rather than a
  zero-valued entry. Here the max id is 3 and the id is 5.
\<close>

theorem SpellSummary_beyond_max_entry_counterexample:
  "GetMaxEntry example_globals \<le> 5
   \<and> SpellSummary_at (FillSpellSummary example_globals) 5 = None"
  by (simp add: SpellSummary_at_FillSpellSummary GetMaxEntry_def example_globals_def)

text \<open>
  Claim C6, amended: for every id below the max id that is absent from the database,
  the built index holds the zero-valued entry; an id at or beyond the max id does not
  resolve in the database and the index has no entry for it.
\<close>

theorem FillSpellSummary_missing_entries:
  "(i < GetMaxEntry g \<and> LookupEntry g i = None \<longrightarrow>
      SpellSummary_at (FillSpellSummary g) i = Some \<lparr>Targets = 0, Effects = 0\<rparr>)
   \<and> (GetMaxEntry g \<le> i \<longrightarrow>
      LookupEntry g i = None \<and> SpellSummary_at (FillSpellSummary g) i = None)"
  by (simp add: SpellSummary_at_FillSpellSummary summarize_spell_def LookupEntry_def
      GetMaxEntry_def)

text \<open>The theorem on the example database, at the missing id 0 and at the id 3.\<close>

theorem FillSpellSummary_missing_entries_witness:
  "SpellSummary_at (FillSpellSummary example_globals) 0 = Some \<lparr>Targets = 0, Effects = 0\<rparr>
   \<and> SpellSummary_at (FillSpellSummary example_globals) 3 = None"
proof -
  have a: "0 < GetMaxEntry example_globals \<and> LookupEntry example_globals 0 = None"
    by (simp add: GetMaxEntry_def LookupEntry_def example_globals_def)
  have b: "GetMaxEntry example_globals \<le> 3"
    by (simp add: GetMaxEntry_def example_globals_def)
  from FillSpellSummary_missing_entries [of 0 example_globals] a
    FillSpellSummary_missing_entries [of 3 example_globals] b
  show ?thesis by simp
qed

lemma Targets_test_bit:
  "(Targets s AND target_mask t \<noteq> 0) = bit (Targets s) (SelectTarget_value t - 1)"
  by (simp add: target_mask_def bit_iff_and_push_bit_not_eq_0)

lemma Effects_test_bit:
  "(Effects s AND effect_mask e \<noteq> 0) = bit (Effects s) (SelectEffect_value e - 1)"
  by (simp add: effect_mask_def bit_iff_and_push_bit_not_eq_0)

lemma Targets_or_Effects [simp]: "Targets (or_Effects e s) = Targets s"
  by (simp add: or_Effects_def)

lemma Effects_or_Targets [simp]: "Effects (or_Targets t s) = Effects s"
  by (simp add: or_Targets_def)

lemma bit_Targets_or_Targets [simp]:
  "bit (Targets (or_Targets t s)) n = (bit (Targets s) n \<or> (n = SelectTarget_value t - 1 \<and> n < 8))"
  by (auto simp add: or_Targets_def target_mask_def bit_simps)

lemma bit_Effects_or_Effects [simp]:
  "bit (Effects (or_Effects e s)) n = (bit (Effects s) n \<or> (n = SelectEffect_value e - 1 \<and> n < 8))"
  by (auto simp add: or_Effects_def effect_mask_def bit_simps)

lemma summarize_slot_enemy:
  assumes "bit (Targets s) 1 \<longrightarrow> bit (Targets s) 3"
  shows "bit (Targets (summarize_slot sp j s)) 1 \<longrightarrow> bit (Targets (summarize_slot sp j s)) 3"
  using assms
  by (cases "EffectImplicitTargetA sp j") (simp_all add: summarize_slot_def Let_def)

lemma summarize_slot_Effects_mono:
  "bit (Effects s) n \<Longrightarrow> bit (Effects (summarize_slot sp j s)) n"
  by (simp add: summarize_slot_def Let_def)

lemma summarize_slot_periodic_heal:
  assumes "Effect sp j = SPELL_EFFECT_APPLY_AURA" and "EffectApplyAuraName sp j = 8"
  shows "bit (Effects (summarize_slot sp j s)) 1 \<and> bit (Effects (summarize_slot sp j s)) 2"
  using assms by (simp add: summarize_slot_def Let_def)

lemma fold_summarize_slot_enemy:
  "bit (Targets s) 1 \<longrightarrow> bit (Targets s) 3 \<Longrightarrow>
   bit (Targets (fold (summarize_slot sp) js s)) 1
     \<longrightarrow> bit (Targets (fold (summarize_slot sp) js s)) 3"
proof (induction js arbitrary: s)
  case Nil
  then show ?case by simp
next
  case (Cons j js)
  from Cons.IH [OF summarize_slot_enemy [OF Cons.prems]] show ?case by simp
qed

lemma fold_summarize_slot_Effects_mono:
  "bit (Effects s) n \<Longrightarrow> bit (Effects (fold (summarize_slot sp) js s)) n"
  by (induction js arbitrary: s) (simp_all add: summarize_slot_Effects_mono)

lemma fold_summarize_slot_periodic_heal:
  assumes "Effect sp j = SPELL_EFFECT_APPLY_AURA" and "EffectApplyAuraName sp j = 8"
  shows "j \<in> set js \<Longrightarrow>
    bit (Effects (fold (summarize_slot sp) js s)) 1
    \<and> bit (Effects (fold (summarize_slot sp) js s)) 2"
proof (induction js arbitrary: s)
  case Nil
  then show ?case by simp
next
  case (Cons k js)
  show ?case
  proof (cases "k = j")
    case True
    with summarize_slot_periodic_heal [OF assms, of s] show ?thesis
      by (simp add: fold_summarize_slot_Effects_mono)
  next
    case False
    with Cons.prems have "j \<in> set js" by simp
    from Cons.IH [OF this] show ?thesis by simp
  qed
qed

lemma summarize_spell_enemy:
  "bit (Targets (summarize_spell g i)) 1 \<longrightarrow> bit (Targets (summarize_spell g i)) 3"
proof (cases "LookupEntry g i")
  case None
  then show ?thesis by (simp add: summarize_spell_def)
next
  case (Some sp)
  have "bit (Targets (fold (summarize_slot sp) [0, 1, 2] \<lparr>Targets = 0, Effects = 0\<rparr>)) 1
    \<longrightarrow> bit (Targets (fold (summarize_slot sp) [0, 1, 2] \<lparr>Targets = 0, Effects = 0\<rparr>)) 3"
    by (rule fold_summarize_slot_enemy) simp
  with Some show ?thesis by (simp only: summarize_spell_def option.case)
qed

lemma summarize_spell_periodic_heal:
  assumes "LookupEntry g i = Some sp" and "j < 3"
    and "Effect sp j = SPELL_EFFECT_APPLY_AURA" and "EffectApplyAuraName sp j = 8"
  shows "bit (Effects (summarize_spell g i)) 1 \<and> bit (Effects (summarize_spell g i)) 2"
proof -
  from \<open>j < 3\<close> have "j = 0 \<or> j = 1 \<or> j = 2" by linarith
  then have "j \<in> set [0, 1, 2]" by auto
  from fold_summarize_slot_periodic_heal [OF assms(3,4) this] assms(1)
  show ?thesis by (simp only: summarize_spell_def option.case)
qed

text \<open>
  Claim C7: in every entry of the built index, the single-enemy bit is set only if
  the any-enemy bit is; and if one of the three effect slots of the ability is
  \<^verbatim>\<open>SPELL_EFFECT_APPLY_AURA\<close> with the aura 8 (periodic heal), then the aura bit
  and the healing bit are both set.
\<close>

theorem FillSpellSummary_implied_bits:
  assumes "SpellSummary_at (FillSpellSummary g) i = Some s"
  shows "(Targets s AND target_mask SELECT_TARGET_SINGLE_ENEMY \<noteq> 0
            \<longrightarrow> Targets s AND target_mask SELECT_TARGET_ANY_ENEMY \<noteq> 0)
    \<and> (\<forall>sp j. LookupEntry g i = Some sp \<and> j < 3
            \<and> Effect sp j = SPELL_EFFECT_APPLY_AURA \<and> EffectApplyAuraName sp j = 8
          \<longrightarrow> Effects s AND effect_mask SELECT_EFFECT_AURA \<noteq> 0
            \<and> Effects s AND effect_mask SELECT_EFFECT_HEALING \<noteq> 0)"
proof -
  from assms have s: "s = summarize_spell g i"
    by (simp add: SpellSummary_at_FillSpellSummary split: if_splits)
  have "bit (Targets s) 1 \<longrightarrow> bit (Targets s) 3"
    unfolding s by (rule summarize_spell_enemy)
  moreover have "bit (Effects s) 2 \<and> bit (Effects s) 1"
    if "LookupEntry g i = Some sp \<and> j < 3
        \<and> Effect sp j = SPELL_EFFECT_APPLY_AURA \<and> EffectApplyAuraName sp j = 8" for sp j
    using that summarize_spell_periodic_heal [of g i sp j] unfolding s by simp
  ultimately show ?thesis
    by (simp add: Targets_test_bit Effects_test_bit) blast
qed

text \<open>
  The theorem on the example database: the damaging ability at id 1 and the periodic
  heal at id 2.
\<close>

theorem FillSpellSummary_implied_bits_witness:
  "SpellSummary_at (FillSpellSummary example_globals) 1 = Some \<lparr>Targets = 10, Effects = 1\<rparr>
   \<and> (10 :: u8) AND target_mask SELECT_TARGET_SINGLE_ENEMY \<noteq> 0
   \<and> (10 :: u8) AND target_mask SELECT_TARGET_ANY_ENEMY \<noteq> 0
   \<and> SpellSummary_at (FillSpellSummary example_globals) 2 = Some \<lparr>Targets = 80, Effects = 6\<rparr>
   \<and> (6 :: u8) AND effect_mask SELECT_EFFECT_AURA \<noteq> 0
   \<and> (6 :: u8) AND effect_mask SELECT_EFFECT_HEALING \<noteq> 0"
proof -
  have f: "SpellSummary_at (FillSpellSummary example_globals) 1 = Some \<lparr>Targets = 10, Effects = 1\<rparr>"
    by (simp add: SpellSummary_at_FillSpellSummary GetMaxEntry_def LookupEntry_def
        summarize_spell_def summarize_slot_def or_Targets_def or_Effects_def target_mask_def
        effect_mask_def example_globals_def fireball_def)
  have r: "SpellSummary_at (FillSpellSummary example_globals) 2 = Some \<lparr>Targets = 80, Effects = 6\<rparr>"
    by (simp add: SpellSummary_at_FillSpellSummary GetMaxEntry_def LookupEntry_def
        summarize_spell_def summarize_slot_def or_Targets_def or_Effects_def target_mask_def
        effect_mask_def example_globals_def renew_def)
  have single: "(10 :: u8) AND target_mask SELECT_TARGET_SINGLE_ENEMY \<noteq> 0"
    by (simp add: target_mask_def)
  have l: "LookupEntry example_globals 2 = Some renew \<and> (0::nat) < 3
      \<and> Effect renew 0 = SPELL_EFFECT_APPLY_AURA \<and> EffectApplyAuraName renew 0 = 8"
    by (simp add: LookupEntry_def example_globals_def renew_def)
  have any: "(10 :: u8) AND target_mask SELECT_TARGET_ANY_ENEMY \<noteq> 0"
    using FillSpellSummary_implied_bits [OF f, THEN conjunct1] single by simp
  have heal: "(6 :: u8) AND effect_mask SELECT_EFFECT_AURA \<noteq> 0
      \<and> (6 :: u8) AND effect_mask SELECT_EFFECT_HEALING \<noteq> 0"
    using FillSpellSummary_implied_bits [OF r, THEN conjunct2, rule_format, OF l] by simp
  from f r single any heal show ?thesis by simp
qed

section \<open>Properties of SelectSpell\<close>

lemma spell_slot_Some:
  assumes "spell_slot g c t a i = Inr (Some sp)"
  shows "LookupEntry g (m_spells c i) = Some sp"
    and "SelectTarget_value (selectTargets a) \<noteq> 0 \<longrightarrow>
          (\<exists>s. SpellSummary_at g (m_spells c i) = Some s
             \<and> Targets s AND target_mask (selectTargets a) \<noteq> 0)"
    and "SelectEffect_value (selectEffects a) \<noteq> 0 \<longrightarrow>
          (\<exists>s. SpellSummary_at g (m_spells c i) = Some s
             \<and> Effects s AND effect_mask (selectEffects a) \<noteq> 0)"
    and "manaCost sp \<le> GetPower c (powerType sp)"
    and "\<exists>r. SpellRangeStore g (rangeIndex sp) = Some r
          \<and> \<not> IsWithinDistInMap c t (minRange r) \<and> IsWithinDistInMap c t (maxRange r)"
proof -
  from assms obtain sp' where l: "LookupEntry g (m_spells c i) = Some sp'"
    by (auto simp add: spell_slot_def split: option.splits)
  from assms l have eq: "sp' = sp"
    by (simp add: spell_slot_def split: option.splits if_splits)
  with l show "LookupEntry g (m_spells c i) = Some sp" by simp
  from assms l eq show "SelectTarget_value (selectTargets a) \<noteq> 0 \<longrightarrow>
          (\<exists>s. SpellSummary_at g (m_spells c i) = Some s
             \<and> Targets s AND target_mask (selectTargets a) \<noteq> 0)"
    by (auto simp add: spell_slot_def SpellSummary_at_def split: option.splits if_splits)
  from assms l eq show "SelectEffect_value (selectEffects a) \<noteq> 0 \<longrightarrow>
          (\<exists>s. SpellSummary_at g (m_spells c i) = Some s
             \<and> Effects s AND effect_mask (selectEffects a) \<noteq> 0)"
    by (auto simp add: spell_slot_def SpellSummary_at_def split: option.splits if_splits)
  from assms l eq show "manaCost sp \<le> GetPower c (powerType sp)"
    by (simp add: spell_slot_def not_less split: option.splits if_splits)
  from assms l eq show "\<exists>r. SpellRangeStore g (rangeIndex sp) = Some r
          \<and> \<not> IsWithinDistInMap c t (minRange r) \<and> IsWithinDistInMap c t (maxRange r)"
    by (simp add: spell_slot_def split: option.splits if_splits)
qed

lemma scan_spells_set:
  "scan_spells body is acc = Inr res \<Longrightarrow>
   set res = set acc \<union> {s. \<exists>i \<in> set is. body i = Inr (Some s)}"
proof (induction "is" arbitrary: acc)
  case Nil
  then show ?case by simp
next
  case (Cons i "is")
  show ?case
  proof (cases "body i")
    case (Inl f)
    with Cons.prems show ?thesis by simp
  next
    case (Inr r)
    show ?thesis
    proof (cases r)
      case None
      with Inr Cons.prems have "scan_spells body is acc = Inr res" by simp
      from Cons.IH [OF this] Inr None show ?thesis by auto
    next
      case (Some s)
      with Inr Cons.prems have "scan_spells body is (acc @ [s]) = Inr res" by simp
      from Cons.IH [OF this] Inr Some show ?thesis by auto
    qed
  qed
qed

lemma viable_spells_member:
  assumes "viable_spells g c t a = Inr cands" and "sp \<in> set cands"
  shows "\<exists>i<4. spell_slot g c t a i = Inr (Some sp)"
proof -
  from scan_spells_set [OF assms(1) [unfolded viable_spells_def]] assms(2)
  obtain i where i: "i \<in> set [0, 1, 2, 3::nat]" and s: "spell_slot g c t a i = Inr (Some sp)"
    by auto
  from i have "i < 4" by auto
  with s show ?thesis by blast
qed

lemma urand_le: "urand rnd 0 (n - 1) < n" if "0 < n"
  using that by (simp add: urand_def)

lemma SelectSpell_result:
  assumes "SelectSpell g rnd ai target sc me st pmin pmax rmin rmax se = Inr (Some sp)"
  shows "\<exists>t cands. target = Some t \<and> \<not> Silenced (m_creature ai)
      \<and> viable_spells g (m_creature ai) t
          \<lparr>school = sc, mechanic = me, selectTargets = st, powerCostMin = pmin,
           powerCostMax = pmax, rangeMin = rmin, rangeMax = rmax, selectEffects = se\<rparr>
         = Inr cands
      \<and> sp \<in> set cands"
proof -
  from assms obtain t where t: "target = Some t"
    by (cases target) (simp_all add: SelectSpell_def)
  from assms t have ns: "\<not> Silenced (m_creature ai)"
    by (auto simp add: SelectSpell_def split: if_splits)
  let ?a = "\<lparr>school = sc, mechanic = me, selectTargets = st, powerCostMin = pmin,
           powerCostMax = pmax, rangeMin = rmin, rangeMax = rmax, selectEffects = se\<rparr>"
  from assms t ns obtain cands where c: "viable_spells g (m_creature ai) t ?a = Inr cands"
    by (cases "viable_spells g (m_creature ai) t ?a") (simp_all add: SelectSpell_def)
  from assms t ns c have ne: "cands \<noteq> []" and sp: "sp = cands ! urand rnd 0 (length cands - 1)"
    by (auto simp add: SelectSpell_def split: if_splits)
  from ne have "urand rnd 0 (length cands - 1) < length cands"
    by (intro urand_le) simp
  with sp have "sp \<in> set cands" by simp
  with t ns c show ?thesis by blast
qed

lemma spell_slot_FillSpellSummary_no_fault:
  "spell_slot (FillSpellSummary g) c t a i \<noteq> Inl f"
proof (cases "LookupEntry g (m_spells c i)")
  case None
  then show ?thesis by (simp add: spell_slot_def)
next
  case (Some sp)
  then have "m_spells c i < GetMaxEntry g"
    by (simp add: LookupEntry_def GetMaxEntry_def split: if_splits)
  then have "SpellSummary_at (FillSpellSummary g) (m_spells c i)
      = Some (summarize_spell g (m_spells c i))"
    by (simp add: SpellSummary_at_FillSpellSummary)
  with Some show ?thesis
    by (simp add: spell_slot_def split: option.splits)
qed

lemma scan_spells_no_fault:
  "(\<And>i f. body i \<noteq> Inl f) \<Longrightarrow> \<exists>res. scan_spells body is acc = Inr res"
proof (induction "is" arbitrary: acc)
  case Nil
  then show ?case by simp
next
  case (Cons i "is")
  show ?case
  proof (cases "body i")
    case (Inl f)
    with Cons.prems show ?thesis by simp
  next
    case (Inr r)
    with Cons.IH [OF Cons.prems] show ?thesis by (cases r) simp_all
  qed
qed

lemma viable_spells_FillSpellSummary_no_fault:
  "\<exists>cands. viable_spells (FillSpellSummary g) c t a = Inr cands"
  unfolding viable_spells_def
  by (rule scan_spells_no_fault) (rule spell_slot_FillSpellSummary_no_fault)

lemma built_summary:
  "SpellSummary (FillSpellSummary example_globals)
     = [\<lparr>Targets = 0, Effects = 0\<rparr>, \<lparr>Targets = 10, Effects = 1\<rparr>, \<lparr>Targets = 80, Effects = 6\<rparr>]"
  by (simp add: FillSpellSummary_def GetMaxEntry_def LookupEntry_def upt_rec
      summarize_spell_def summarize_slot_def or_Targets_def or_Effects_def target_mask_def
      effect_mask_def example_globals_def fireball_def renew_def)

lemma built_stores:
  "SpellStore (FillSpellSummary example_globals) = [None, Some fireball, Some renew]"
  "SpellRangeStore (FillSpellSummary example_globals)
     = (\<lambda>i. if i = 1 then Some \<lparr>minRange = 0, maxRange = 30\<rparr> else None)"
  by (simp_all add: FillSpellSummary_def example_globals_def)

lemma caster_fields:
  "m_spells (m_creature caster) = (\<lambda>i. if i = 0 then 1 else if i = 1 then 2 else 0)"
  "GetPower (m_creature caster) = (\<lambda>p. 40)"
  "IsWithinDistInMap (m_creature caster) = (\<lambda>u d. 10 \<le> d)"
  "IsInRange (m_creature caster) = (\<lambda>u lo hi. lo \<le> 10 \<and> 10 \<le> hi)"
  "Silenced (m_creature caster) = False"
  by (simp_all add: caster_def new_ScriptedAI_def blank_creature_def)

lemma example_slots:
  "spell_slot (FillSpellSummary example_globals) (m_creature caster) 7
      \<lparr>school = - 1, mechanic = - 1, selectTargets = SELECT_TARGET_ANY_FRIEND,
       powerCostMin = 0, powerCostMax = 0, rangeMin = 0, rangeMax = 0,
       selectEffects = SELECT_EFFECT_HEALING\<rparr> i
   = (if i = 1 then Inr (Some renew) else Inr None)"
  by (simp add: spell_slot_def SpellSummary_at_def LookupEntry_def built_summary built_stores
      caster_fields target_mask_def effect_mask_def)
    (simp add: renew_def)

lemma viable_example:
  "viable_spells (FillSpellSummary example_globals) (m_creature caster) 7
      \<lparr>school = - 1, mechanic = - 1, selectTargets = SELECT_TARGET_ANY_FRIEND,
       powerCostMin = 0, powerCostMax = 0, rangeMin = 0, rangeMax = 0,
       selectEffects = SELECT_EFFECT_HEALING\<rparr> = Inr [renew]"
  by (simp add: viable_spells_def example_slots)

lemma rich_slots:
  "spell_slot (FillSpellSummary example_globals) (m_creature rich_caster) 7
      \<lparr>school = - 1, mechanic = - 1, selectTargets = SELECT_TARGET_DONTCARE,
       powerCostMin = 0, powerCostMax = 0, rangeMin = 0, rangeMax = 0,
       selectEffects = SELECT_EFFECT_DONTCARE\<rparr> i
   = (if i = 0 then Inr (Some fireball) else if i = 1 then Inr (Some renew) else Inr None)"
  by (simp add: spell_slot_def LookupEntry_def built_stores caster_fields rich_caster_def)
    (simp add: renew_def fireball_def)

lemma viable_rich:
  "viable_spells (FillSpellSummary example_globals) (m_creature rich_caster) 7
      \<lparr>school = - 1, mechanic = - 1, selectTargets = SELECT_TARGET_DONTCARE,
       powerCostMin = 0, powerCostMax = 0, rangeMin = 0, rangeMax = 0,
       selectEffects = SELECT_EFFECT_DONTCARE\<rparr> = Inr [fireball, renew]"
  by (simp add: viable_spells_def rich_slots)

text \<open>
  Claim C4: \<open>SelectSpell\<close> returns none at once when the target is absent or the
  caster is silenced; and an ability it returns costs no more than the caster's power
  of the ability's power type, has a range entry with the target not within its
  \<open>minRange\<close> and within its \<open>maxRange\<close> (by \<^verbatim>\<open>IsWithinDistInMap\<close>), and is
  known in one of the four slots under an id whose summary entry has the bit of
  every filter that is not zero.
\<close>

theorem SelectSpell_never_returns_unusable:
  "(target = None \<or> Silenced (m_creature ai) \<longrightarrow>
      SelectSpell g rnd ai target sc me st pmin pmax rmin rmax se = Inr None)
   \<and> (SelectSpell g rnd ai target sc me st pmin pmax rmin rmax se = Inr (Some sp) \<longrightarrow>
      manaCost sp \<le> GetPower (m_creature ai) (powerType sp)
      \<and> (\<exists>t r. target = Some t \<and> SpellRangeStore g (rangeIndex sp) = Some r
            \<and> \<not> IsWithinDistInMap (m_creature ai) t (minRange r)
            \<and> IsWithinDistInMap (m_creature ai) t (maxRange r))
      \<and> (\<exists>i<4. LookupEntry g (m_spells (m_creature ai) i) = Some sp
            \<and> (SelectTarget_value st \<noteq> 0 \<longrightarrow>
                 (\<exists>s. SpellSummary_at g (m_spells (m_creature ai) i) = Some s
                    \<and> Targets s AND target_mask st \<noteq> 0))
            \<and> (SelectEffect_value se \<noteq> 0 \<longrightarrow>
                 (\<exists>s. SpellSummary_at g (m_spells (m_creature ai) i) = Some s
                    \<and> Effects s AND effect_mask se \<noteq> 0))))"
proof (intro conjI impI)
  assume "target = None \<or> Silenced (m_creature ai)"
  then show "SelectSpell g rnd ai target sc me st pmin pmax rmin rmax se = Inr None"
    by (auto simp add: SelectSpell_def split: option.splits)
next
  let ?a = "\<lparr>school = sc, mechanic = me, selectTargets = st, powerCostMin = pmin,
           powerCostMax = pmax, rangeMin = rmin, rangeMax = rmax, selectEffects = se\<rparr>"
  assume "SelectSpell g rnd ai target sc me st pmin pmax rmin rmax se = Inr (Some sp)"
  from SelectSpell_result [OF this] obtain t cands where t: "target = Some t"
    and c: "viable_spells g (m_creature ai) t ?a = Inr cands" and m: "sp \<in> set cands"
    by blast
  from viable_spells_member [OF c m] obtain i where i: "i < 4"
    and s: "spell_slot g (m_creature ai) t ?a i = Inr (Some sp)" by blast
  from spell_slot_Some(4) [OF s]
  show "manaCost sp \<le> GetPower (m_creature ai) (powerType sp)" .
  from spell_slot_Some(5) [OF s] t
  show "\<exists>t r. target = Some t \<and> SpellRangeStore g (rangeIndex sp) = Some r
            \<and> \<not> IsWithinDistInMap (m_creature ai) t (minRange r)
            \<and> IsWithinDistInMap (m_creature ai) t (maxRange r)" by blast
  from spell_slot_Some(1,2,3) [OF s] i
  show "\<exists>i<4. LookupEntry g (m_spells (m_creature ai) i) = Some sp
            \<and> (SelectTarget_value st \<noteq> 0 \<longrightarrow>
                 (\<exists>s. SpellSummary_at g (m_spells (m_creature ai) i) = Some s
                    \<and> Targets s AND target_mask st \<noteq> 0))
            \<and> (SelectEffect_value se \<noteq> 0 \<longrightarrow>
                 (\<exists>s. SpellSummary_at g (m_spells (m_creature ai) i) = Some s
                    \<and> Effects s AND effect_mask se \<noteq> 0))"
    by (intro exI [of _ i]) simp
qed

text \<open>
  The theorem on the caster with a power of 40, asked for a healing ability for any
  friend: without a target, and at unit 7.
\<close>

theorem SelectSpell_never_returns_unusable_witness:
  "SelectSpell (FillSpellSummary example_globals) 0 caster None (- 1) (- 1)
      SELECT_TARGET_ANY_FRIEND 0 0 0 0 SELECT_EFFECT_HEALING = Inr None
   \<and> SelectSpell (FillSpellSummary example_globals) 0 caster (Some 7) (- 1) (- 1)
      SELECT_TARGET_ANY_FRIEND 0 0 0 0 SELECT_EFFECT_HEALING = Inr (Some renew)
   \<and> manaCost renew \<le> GetPower (m_creature caster) (powerType renew)"
proof -
  have none: "SelectSpell (FillSpellSummary example_globals) 0 caster None (- 1) (- 1)
      SELECT_TARGET_ANY_FRIEND 0 0 0 0 SELECT_EFFECT_HEALING = Inr None"
    using SelectSpell_never_returns_unusable [where target = None and ai = caster
        and g = "FillSpellSummary example_globals" and rnd = 0 and sc = "- 1" and me = "- 1"
        and st = SELECT_TARGET_ANY_FRIEND and pmin = 0 and pmax = 0 and rmin = 0 and rmax = 0
        and se = SELECT_EFFECT_HEALING]
    by simp
  have sel: "SelectSpell (FillSpellSummary example_globals) 0 caster (Some 7) (- 1) (- 1)
      SELECT_TARGET_ANY_FRIEND 0 0 0 0 SELECT_EFFECT_HEALING = Inr (Some renew)"
    by (simp add: SelectSpell_def viable_example caster_fields urand_def)
  from SelectSpell_never_returns_unusable [THEN conjunct2, rule_format, OF sel]
  have "manaCost renew \<le> GetPower (m_creature caster) (powerType renew)" by simp
  with none sel show ?thesis by simp
qed

text \<open>
  Claim C5: in every state, \<open>SelectSpell\<close> returns none when the target is absent
  or the caster is silenced (no ability passes the checks then); on the index built
  by \<open>FillSpellSummary\<close> the scan completes; and when the scan completes for a
  target that is present and a caster who is not silenced, the candidates are the
  abilities that pass the checks in one of the four slots, and \<open>SelectSpell\<close>
  returns none with no candidate, the candidate with one candidate ability whatever
  the random value is, and one of the candidates with any candidates whatever the
  random value is.
\<close>

theorem SelectSpell_choice:
  "(target = None \<or> Silenced (m_creature ai) \<longrightarrow>
      SelectSpell g rnd ai target sc me st pmin pmax rmin rmax se = Inr None)
   \<and> (FillSpellSummary g = g \<longrightarrow>
      (\<exists>cands. viable_spells g (m_creature ai) t
        \<lparr>school = sc, mechanic = me, selectTargets = st, powerCostMin = pmin,
         powerCostMax = pmax, rangeMin = rmin, rangeMax = rmax, selectEffects = se\<rparr>
        = Inr cands))
   \<and> (target = Some t \<and> \<not> Silenced (m_creature ai)
       \<and> viable_spells g (m_creature ai) t
        \<lparr>school = sc, mechanic = me, selectTargets = st, powerCostMin = pmin,
         powerCostMax = pmax, rangeMin = rmin, rangeMax = rmax, selectEffects = se\<rparr>
        = Inr cands \<longrightarrow>
      set cands = {s. \<exists>i<4. spell_slot g (m_creature ai) t
        \<lparr>school = sc, mechanic = me, selectTargets = st, powerCostMin = pmin,
         powerCostMax = pmax, rangeMin = rmin, rangeMax = rmax, selectEffects = se\<rparr> i
        = Inr (Some s)}
      \<and> (cands = [] \<longrightarrow>
            SelectSpell g rnd ai target sc me st pmin pmax rmin rmax se = Inr None)
      \<and> (\<forall>s. set cands = {s} \<longrightarrow>
            SelectSpell g rnd ai target sc me st pmin pmax rmin rmax se = Inr (Some s))
      \<and> (cands \<noteq> [] \<longrightarrow>
            (\<exists>s. s \<in> set cands
               \<and> SelectSpell g rnd ai target sc me st pmin pmax rmin rmax se = Inr (Some s))))"
proof (intro conjI impI)
  assume "target = None \<or> Silenced (m_creature ai)"
  then show "SelectSpell g rnd ai target sc me st pmin pmax rmin rmax se = Inr None"
    by (auto simp add: SelectSpell_def split: option.splits)
next
  let ?a = "\<lparr>school = sc, mechanic = me, selectTargets = st, powerCostMin = pmin,
       powerCostMax = pmax, rangeMin = rmin, rangeMax = rmax, selectEffects = se\<rparr>"
  assume "FillSpellSummary g = g"
  with viable_spells_FillSpellSummary_no_fault [of g "m_creature ai" t ?a]
  show "\<exists>cands. viable_spells g (m_creature ai) t ?a = Inr cands" by simp
next
  let ?a = "\<lparr>school = sc, mechanic = me, selectTargets = st, powerCostMin = pmin,
       powerCostMax = pmax, rangeMin = rmin, rangeMax = rmax, selectEffects = se\<rparr>"
  assume a: "target = Some t \<and> \<not> Silenced (m_creature ai)
      \<and> viable_spells g (m_creature ai) t ?a = Inr cands"
  then have v: "viable_spells g (m_creature ai) t ?a = Inr cands" by simp
  have idx: "(\<exists>i \<in> set [0, 1, 2, 3::nat]. P i) = (\<exists>i<4. P i)" for P
  proof
    assume "\<exists>i \<in> set [0, 1, 2, 3::nat]. P i"
    then obtain i where "i \<in> set [0, 1, 2, 3::nat]" and p: "P i" by blast
    then have "i < 4" by auto
    with p show "\<exists>i<4. P i" by blast
  next
    assume "\<exists>i<4. P i"
    then obtain i where "i < 4" and p: "P i" by blast
    then have "i = 0 \<or> i = 1 \<or> i = 2 \<or> i = 3" by linarith
    then have "i \<in> set [0, 1, 2, 3::nat]" by auto
    with p show "\<exists>i \<in> set [0, 1, 2, 3::nat]. P i" by blast
  qed
  show "set cands = {s. \<exists>i<4. spell_slot g (m_creature ai) t ?a i = Inr (Some s)}"
    using scan_spells_set [OF v [unfolded viable_spells_def]]
    by (simp only: idx) simp
  have sel: "SelectSpell g rnd ai target sc me st pmin pmax rmin rmax se
      = (if cands = [] then Inr None else Inr (Some (cands ! urand rnd 0 (length cands - 1))))"
    using a by (simp add: SelectSpell_def)
  have mem: "cands ! urand rnd 0 (length cands - 1) \<in> set cands" if "cands \<noteq> []"
  proof -
    from that have "urand rnd 0 (length cands - 1) < length cands"
      by (intro urand_le) simp
    then show ?thesis by simp
  qed
  show "SelectSpell g rnd ai target sc me st pmin pmax rmin rmax se = Inr None"
    if "cands = []"
    using that by (simp add: sel)
  show "\<forall>s. set cands = {s} \<longrightarrow>
      SelectSpell g rnd ai target sc me st pmin pmax rmin rmax se = Inr (Some s)"
  proof (intro allI impI)
    fix s assume one: "set cands = {s}"
    then have ne: "cands \<noteq> []" by auto
    from mem [OF ne] one have "cands ! urand rnd 0 (length cands - 1) = s" by simp
    with ne show "SelectSpell g rnd ai target sc me st pmin pmax rmin rmax se = Inr (Some s)"
      by (simp add: sel)
  qed
  show "\<exists>s. s \<in> set cands
      \<and> SelectSpell g rnd ai target sc me st pmin pmax rmin rmax se = Inr (Some s)"
    if "cands \<noteq> []"
    using that mem by (simp add: sel)
qed

text \<open>
  The theorem on the built example index: the caster with a power of 40 (one
  candidate) at the random value 12345, the caster with a power of 100 (two
  candidates) at the random value 0, and the latter without a target.
\<close>

theorem SelectSpell_choice_witness:
  "SelectSpell (FillSpellSummary example_globals) 12345 caster (Some 7) (- 1) (- 1)
      SELECT_TARGET_ANY_FRIEND 0 0 0 0 SELECT_EFFECT_HEALING = Inr (Some renew)
   \<and> (\<exists>s. s \<in> set [fireball, renew]
         \<and> SelectSpell (FillSpellSummary example_globals) 0 rich_caster (Some 7) (- 1) (- 1)
              SELECT_TARGET_DONTCARE 0 0 0 0 SELECT_EFFECT_DONTCARE = Inr (Some s))
   \<and> SelectSpell (FillSpellSummary example_globals) 0 rich_caster None (- 1) (- 1)
        SELECT_TARGET_DONTCARE 0 0 0 0 SELECT_EFFECT_DONTCARE = Inr None
   \<and> (\<exists>cands. viable_spells (FillSpellSummary example_globals) (m_creature caster) 7
        \<lparr>school = - 1, mechanic = - 1, selectTargets = SELECT_TARGET_ANY_FRIEND,
         powerCostMin = 0, powerCostMax = 0, rangeMin = 0, rangeMax = 0,
         selectEffects = SELECT_EFFECT_HEALING\<rparr> = Inr cands)"
proof -
  have one: "Some 7 = Some 7 \<and> \<not> Silenced (m_creature caster)
      \<and> viable_spells (FillSpellSummary example_globals) (m_creature caster) 7
        \<lparr>school = - 1, mechanic = - 1, selectTargets = SELECT_TARGET_ANY_FRIEND,
         powerCostMin = 0, powerCostMax = 0, rangeMin = 0, rangeMax = 0,
         selectEffects = SELECT_EFFECT_HEALING\<rparr> = Inr [renew]"
    by (simp add: caster_fields viable_example)
  have ns2: "\<not> Silenced (m_creature rich_caster)"
    by (simp add: caster_fields rich_caster_def)
  have two: "Some 7 = Some 7 \<and> \<not> Silenced (m_creature rich_caster)
      \<and> viable_spells (FillSpellSummary example_globals) (m_creature rich_caster) 7
        \<lparr>school = - 1, mechanic = - 1, selectTargets = SELECT_TARGET_DONTCARE,
         powerCostMin = 0, powerCostMax = 0, rangeMin = 0, rangeMax = 0,
         selectEffects = SELECT_EFFECT_DONTCARE\<rparr> = Inr [fireball, renew]"
    using ns2 viable_rich by simp
  have s1: "set [renew] = {renew}" by simp
  have s2: "[fireball, renew] \<noteq> []" by simp
  have none: "(None :: Unit option) = None \<or> Silenced (m_creature rich_caster)" by simp
  have built: "FillSpellSummary (FillSpellSummary example_globals) = FillSpellSummary example_globals"
    by (rule FillSpellSummary_idem)
  from SelectSpell_choice [THEN conjunct2, THEN conjunct2, rule_format, OF one,
      THEN conjunct2, THEN conjunct2, THEN conjunct1, rule_format, OF s1, of 12345]
  have a: "SelectSpell (FillSpellSummary example_globals) 12345 caster (Some 7) (- 1) (- 1)
      SELECT_TARGET_ANY_FRIEND 0 0 0 0 SELECT_EFFECT_HEALING = Inr (Some renew)" .
  from SelectSpell_choice [THEN conjunct2, THEN conjunct2, rule_format, OF two,
      THEN conjunct2, THEN conjunct2, THEN conjunct2, rule_format, OF s2, of 0]
  have b: "\<exists>s. s \<in> set [fireball, renew]
         \<and> SelectSpell (FillSpellSummary example_globals) 0 rich_caster (Some 7) (- 1) (- 1)
              SELECT_TARGET_DONTCARE 0 0 0 0 SELECT_EFFECT_DONTCARE = Inr (Some s)" .
  from SelectSpell_choice [THEN conjunct1, rule_format, OF none]
  have c: "SelectSpell (FillSpellSummary example_globals) 0 rich_caster None (- 1) (- 1)
        SELECT_TARGET_DONTCARE 0 0 0 0 SELECT_EFFECT_DONTCARE = Inr None" .
  from SelectSpell_choice [THEN conjunct2, THEN conjunct1, rule_format, OF built]
  have d: "\<exists>cands. viable_spells (FillSpellSummary example_globals) (m_creature caster) 7
        \<lparr>school = - 1, mechanic = - 1, selectTargets = SELECT_TARGET_ANY_FRIEND,
         powerCostMin = 0, powerCostMax = 0, rangeMin = 0, rangeMax = 0,
         selectEffects = SELECT_EFFECT_HEALING\<rparr> = Inr cands" .
  from a b c d show ?thesis by blast
qed

section \<open>Properties of DoResetThreat\<close>

lemma getThreat_append:
  "g \<notin> fst ` set P \<Longrightarrow> getThreat (P @ (g, t) # R) g = t"
  by (induction P) auto

lemma modifyThreatPercent_append:
  "g \<notin> fst ` set P \<Longrightarrow>
   modifyThreatPercent g pct (P @ (g, t) # R) = P @ (g, t + t * of_int pct / 100) # R"
  by (induction P) auto

lemma reset_threat_of_entry:
  assumes "g \<notin> fst ` set P" and "ThreatList c = P @ (g, t) # R"
  shows "reset_threat_of g c
    = c\<lparr>ThreatList := P @ (if g \<in> set (MapUnits c) \<and> t \<noteq> 0 then (g, 0) else (g, t)) # R\<rparr>"
  using assms
  by (simp add: reset_threat_of_def GetUnit_def getThreat_append modifyThreatPercent_append)

lemma fold_reset_threat_of:
  "distinct (map fst (P @ R)) \<Longrightarrow> ThreatList c = P @ R \<Longrightarrow>
   fold reset_threat_of (map fst R) c
     = c\<lparr>ThreatList := P @ map (\<lambda>(guid, threat).
          if guid \<in> set (MapUnits c) \<and> threat \<noteq> 0 then (guid, 0) else (guid, threat)) R\<rparr>"
proof (induction R arbitrary: P c)
  case Nil
  then show ?case by simp
next
  case (Cons e R)
  obtain g t where e: "e = (g, t)" by (cases e)
  let ?z = "if g \<in> set (MapUnits c) \<and> t \<noteq> 0 then (g, 0) else (g, t)"
  let ?c = "c\<lparr>ThreatList := (P @ [?z]) @ R\<rparr>"
  from Cons.prems e have notin: "g \<notin> fst ` set P" by auto
  from Cons.prems e have step: "reset_threat_of g c = ?c"
    using reset_threat_of_entry [OF notin, of c t R] by simp
  have d: "distinct (map fst ((P @ [?z]) @ R))"
    using Cons.prems(1) e by auto
  have "fold reset_threat_of (map fst R) ?c
     = ?c\<lparr>ThreatList := (P @ [?z]) @ map (\<lambda>(guid, threat).
          if guid \<in> set (MapUnits ?c) \<and> threat \<noteq> 0 then (guid, 0) else (guid, threat)) R\<rparr>"
    by (rule Cons.IH [OF d]) simp
  with step e show ?case by simp
qed

text \<open>
  Claim C9: on a creature that cannot have a threat list or whose threat list is
  empty, \<open>DoResetThreat\<close> sends one line to the error log and changes nothing else;
  otherwise (the threat list holding one reference for a unit, as the threat manager
  keeps it) it logs nothing, every reference stays in the list in its place, the
  threat of a reference whose unit the map resolves and whose threat is not zero
  becomes 0, and every other reference is unchanged.
\<close>

theorem DoResetThreat_effect:
  "(\<not> CanHaveThreatList (m_creature ai) \<or> ThreatList (m_creature ai) = [] \<longrightarrow>
      DoResetThreat ai
        = ai\<lparr>calls := calls ai
            @ [Script_error_log (ResetThreat_no_threat_list (Entry (m_creature ai)))]\<rparr>)
   \<and> (CanHaveThreatList (m_creature ai) \<and> ThreatList (m_creature ai) \<noteq> []
        \<and> distinct (map fst (ThreatList (m_creature ai))) \<longrightarrow>
      DoResetThreat ai
        = ai\<lparr>m_creature := (m_creature ai)\<lparr>ThreatList :=
            map (\<lambda>(guid, threat).
                  if guid \<in> set (MapUnits (m_creature ai)) \<and> threat \<noteq> 0
                  then (guid, 0) else (guid, threat))
              (ThreatList (m_creature ai))\<rparr>\<rparr>)"
proof (intro conjI impI)
  assume "\<not> CanHaveThreatList (m_creature ai) \<or> ThreatList (m_creature ai) = []"
  then show "DoResetThreat ai
        = ai\<lparr>calls := calls ai
            @ [Script_error_log (ResetThreat_no_threat_list (Entry (m_creature ai)))]\<rparr>"
    by (auto simp add: DoResetThreat_def isThreatListEmpty_def script_error_log_def)
next
  assume a: "CanHaveThreatList (m_creature ai) \<and> ThreatList (m_creature ai) \<noteq> []
        \<and> distinct (map fst (ThreatList (m_creature ai)))"
  then have "distinct (map fst ([] @ ThreatList (m_creature ai)))" by simp
  from fold_reset_threat_of [OF this, of "m_creature ai"] a
  show "DoResetThreat ai
        = ai\<lparr>m_creature := (m_creature ai)\<lparr>ThreatList :=
            map (\<lambda>(guid, threat).
                  if guid \<in> set (MapUnits (m_creature ai)) \<and> threat \<noteq> 0
                  then (guid, 0) else (guid, threat))
              (ThreatList (m_creature ai))\<rparr>\<rparr>"
    by (simp add: DoResetThreat_def isThreatListEmpty_def)
qed

text \<open>
  The theorem on a creature that cannot have a threat list, and on the creature with
  three references: unit 3 is on the map with a threat of 120, unit 4 is on the map
  with no threat, unit 5 is not on the map.
\<close>

theorem DoResetThreat_effect_witness:
  "DoResetThreat (new_ScriptedAI blank_creature)
     = (new_ScriptedAI blank_creature)\<lparr>calls := [Script_error_log (ResetThreat_no_threat_list 0)]\<rparr>
   \<and> ThreatList (m_creature (DoResetThreat threatened)) = [(3, 0), (4, 0), (5, 75 / 2)]
   \<and> calls (DoResetThreat threatened) = []"
proof -
  let ?ai = "new_ScriptedAI blank_creature"
  have a: "\<not> CanHaveThreatList (m_creature ?ai) \<or> ThreatList (m_creature ?ai) = []"
    by (simp add: new_ScriptedAI_def blank_creature_def)
  have b: "CanHaveThreatList (m_creature threatened) \<and> ThreatList (m_creature threatened) \<noteq> []
        \<and> distinct (map fst (ThreatList (m_creature threatened)))"
    by (simp add: threatened_def new_ScriptedAI_def blank_creature_def)
  have "DoResetThreat ?ai
     = ?ai\<lparr>calls := calls ?ai @ [Script_error_log (ResetThreat_no_threat_list (Entry (m_creature ?ai)))]\<rparr>"
    using DoResetThreat_effect [of ?ai] a by blast
  moreover have "DoResetThreat threatened
        = threatened\<lparr>m_creature := (m_creature threatened)\<lparr>ThreatList :=
            map (\<lambda>(guid, threat).
                  if guid \<in> set (MapUnits (m_creature threatened)) \<and> threat \<noteq> 0
                  then (guid, 0) else (guid, threat))
              (ThreatList (m_creature threatened))\<rparr>\<rparr>"
    using DoResetThreat_effect [of threatened] b by blast
  ultimately show ?thesis
    by (simp add: threatened_def new_ScriptedAI_def blank_creature_def)
qed

end
